theory Spec2Isabelle
  imports Main
begin

section \<open>Data model (part\_000: Condition, Subscription, requests)\<close>

text \<open>
  Go strings are byte sequences and are modelled as \<open>string\<close>. A Go \<open>time.Time\<close> is
  modelled as an unbounded \<open>int\<close>: nanoseconds since the Unix epoch.

  The field \<open>RewardID\<close> of a condition has the interface type \<open>any\<close>. A value of that type is
  nil, a value of a comparable dynamic type (the name of the type and a canonical rendering
  of the value), or a value of a dynamic type that Go cannot compare (a slice or a map, as
  \<open>encoding/json\<close> produces for a JSON array or object).
\<close>

datatype any = AnyNil | AnyComparable string string | AnyUncomparable string

record Condition =
  BroadcasterUserID :: string
  ModeratorUserID :: string
  UserID :: string
  FromBroadcasterUserID :: string
  ToBroadcasterUserID :: string
  RewardID :: any
  ClientID :: string
  ExtensionClientID :: string
  ConduitID :: string
  OrganizationID :: string
  CategoryID :: string
  CampaignID :: string

record Subscription =
  ID :: string
  Status :: string
  Type :: string
  Version :: string
  Cost :: int
  Condition :: Condition
  TransportMethod :: string
  TransportCallback :: string
  CreatedAt :: int

record transport =
  Method :: string
  Callback :: string
  Secret :: string

record subscriptionRequest =
  reqType :: string
  reqVersion :: string
  reqCondition :: Condition
  reqTransport :: transport

text \<open>The payload of an inbound callback (handler.go, \<open>webhookPayload\<close>).\<close>

record webhookPayload =
  Challenge :: string
  Subscription :: Subscription
  Event :: string

section \<open>The client (client.go)\<close>

text \<open>
  A registered handler is a Go function value; it is modelled by a name (a natural number).
  \<open>handledEvents\<close> is the slice of the default \<open>HandledEventsChecker\<close>. The logger, the HTTP
  client and the verification channel are not state of the model: what is sent on the channel
  and what is sent over HTTP is recorded as effects.
\<close>

record Client =
  clientID :: string
  clientSecret :: string
  token :: string
  webhookSecret :: string
  webhookURL :: string
  handledEvents :: "string list"
  OnRevocation :: "nat option"
  handlers :: "string \<rightharpoonup> nat"

definition IsHandled :: "Client \<Rightarrow> string \<Rightarrow> bool" where
  "IsHandled c messageID = (messageID \<in> set (handledEvents c))"

definition MarkHandled :: "Client \<Rightarrow> string \<Rightarrow> Client" where
  "MarkHandled c messageID = c\<lparr>handledEvents := handledEvents c @ [messageID]\<rparr>"

definition On :: "Client \<Rightarrow> string \<Rightarrow> nat \<Rightarrow> Client" where
  "On c event handler = c\<lparr>handlers := (handlers c)(event \<mapsto> handler)\<rparr>"

text \<open>
  Modelled from the spec: \<open>GetWebhookSecret\<close> is called by the handler and is not among the
  sources; the signature is checked "against the configured secret".
\<close>

definition GetWebhookSecret :: "Client \<Rightarrow> string" where
  "GetWebhookSecret c = webhookSecret c"

section \<open>Library functions the code calls\<close>

text \<open>
  The Go standard library is not part of the repository. What the code calls is a parameter
  of the model: HMAC-SHA256 (key, then message, to the 32 bytes of the MAC),
  \<open>time.Parse(time.RFC3339, _)\<close> (\<open>None\<close> is a parse error), the reading of the clock
  \<open>time.Now()\<close>, and \<open>json.Unmarshal\<close> / \<open>json.Marshal\<close> at each of the types they are used at
  (\<open>None\<close> is an error).
\<close>

record lib =
  hmacSha256 :: "string \<Rightarrow> string \<Rightarrow> string"
  parseRFC3339 :: "string \<Rightarrow> int option"
  now :: int
  unmarshalPayload :: "string \<Rightarrow> webhookPayload option"
  marshalRequest :: "subscriptionRequest \<Rightarrow> string option"
  unmarshalCreated :: "string \<Rightarrow> Subscription list option"
  unmarshalPage :: "string \<Rightarrow> (Subscription list \<times> string) option"

section \<open>Signatures and freshness (verify.go)\<close>

text \<open>\<open>hex.EncodeToString\<close>: two lower-case hexadecimal digits for each byte.\<close>

definition hexDigit :: "nat \<Rightarrow> char" where
  "hexDigit n = ''0123456789abcdef'' ! (n mod 16)"

definition EncodeToString :: "string \<Rightarrow> string" where
  "EncodeToString bs =
     concat (map (\<lambda>b. [hexDigit (of_char b div 16), hexDigit (of_char b mod 16)]) bs)"

definition generateHmac :: "lib \<Rightarrow> string \<Rightarrow> string \<Rightarrow> string" where
  "generateHmac l secret message = EncodeToString (hmacSha256 l secret message)"

text \<open>\<open>hmac.Equal\<close> compares in constant time; its result is equality of the two byte strings.\<close>

definition verifyHmac :: "string \<Rightarrow> string \<Rightarrow> bool" where
  "verifyHmac hmac1 hmac2 = (hmac1 = hmac2)"

text \<open>
  A \<open>time.Duration\<close> is a signed 64-bit count of nanoseconds. \<open>Time.Sub\<close> saturates at the
  largest and the smallest duration; \<open>time.Since t\<close> is \<open>time.Now().Sub(t)\<close>.
\<close>

definition maxDuration :: int where
  "maxDuration = 2 ^ 63 - 1"

definition minDuration :: int where
  "minDuration = - (2 ^ 63)"

definition Sub :: "int \<Rightarrow> int \<Rightarrow> int" where
  "Sub t u =
     (if t - u > maxDuration then maxDuration
      else if t - u < minDuration then minDuration
      else t - u)"

definition Since :: "lib \<Rightarrow> int \<Rightarrow> int" where
  "Since l t = Sub (now l) t"

definition Second :: int where
  "Second = 1000000000"

definition Minute :: int where
  "Minute = 60 * Second"

definition isMessageTooOld :: "lib \<Rightarrow> string \<Rightarrow> bool" where
  "isMessageTooOld l timestamp =
     (case parseRFC3339 l timestamp of
        None \<Rightarrow> False
      | Some t \<Rightarrow> Since l t > 10 * Minute)"

section \<open>The inbound handler (handler.go)\<close>

definition twitchMessageID :: string where
  "twitchMessageID = ''Twitch-Eventsub-Message-Id''"

definition twitchMessageTimestamp :: string where
  "twitchMessageTimestamp = ''Twitch-Eventsub-Message-Timestamp''"

definition twitchMessageSignature :: string where
  "twitchMessageSignature = ''Twitch-Eventsub-Message-Signature''"

definition messageType :: string where
  "messageType = ''Twitch-Eventsub-Message-Type''"

definition messageTypeNotification :: string where
  "messageTypeNotification = ''notification''"

definition messageTypeVerification :: string where
  "messageTypeVerification = ''webhook_callback_verification''"

definition messageTypeRevocation :: string where
  "messageTypeRevocation = ''revocation''"

text \<open>
  An inbound request: its headers and its body (\<open>None\<close> when \<open>io.ReadAll\<close> fails).
  \<open>Header.Get\<close> returns the empty string for a header that is absent.
\<close>

record Request =
  Header :: "string \<rightharpoonup> string"
  Body :: "string option"

definition Get :: "Request \<Rightarrow> string \<Rightarrow> string" where
  "Get r key = (case Header r key of None \<Rightarrow> [] | Some v \<Rightarrow> v)"

text \<open>
  What one run of the handler does, in order: the status line and the body it writes, the
  user handler it starts in a goroutine (with the raw event), the subscription ID it sends
  to the verification channel from a goroutine, and the revocation callback it calls.
  A run that writes no status leaves the response to the HTTP server.
\<close>

datatype effect =
  WriteHeader int
  | Write string
  | GoHandler nat string
  | GoSendVerified string
  | CallOnRevocation nat Subscription

text \<open>The branch on the message type, taken once the payload is parsed.\<close>

definition dispatch :: "Client \<Rightarrow> Request \<Rightarrow> webhookPayload \<Rightarrow> Client \<times> effect list" where
  "dispatch c r payload =
     (let message_type = Get r messageType in
      if message_type = messageTypeNotification then
        (let messageID = Get r twitchMessageID in
         if IsHandled c messageID then (c, [WriteHeader 204])
         else
           (let c' = MarkHandled c messageID in
            case handlers c' (Type (Subscription payload)) of
              Some handler \<Rightarrow> (c', [GoHandler handler (Event payload), WriteHeader 204])
            | None \<Rightarrow> (c', [WriteHeader 204])))
      else if message_type = messageTypeVerification then
        (c, [GoSendVerified (ID (Subscription payload)), WriteHeader 200,
             Write (Challenge payload)])
      else if message_type = messageTypeRevocation then
        (case OnRevocation c of
           Some callback \<Rightarrow> (c, [CallOnRevocation callback (Subscription payload), WriteHeader 204])
         | None \<Rightarrow> (c, [WriteHeader 204]))
      else (c, []))"

definition Handler :: "lib \<Rightarrow> Client \<Rightarrow> Request \<Rightarrow> Client \<times> effect list" where
  "Handler l c r =
     (case Body r of
        None \<Rightarrow> (c, [WriteHeader 500])
      | Some body \<Rightarrow>
          (let hmacMessage = Get r twitchMessageID @ Get r twitchMessageTimestamp @ body;
               expectedSignature = ''sha256='' @ generateHmac l (GetWebhookSecret c) hmacMessage
           in
           if verifyHmac expectedSignature (Get r twitchMessageSignature) then
             (if isMessageTooOld l (Get r twitchMessageTimestamp) then (c, [WriteHeader 204])
              else
                (case unmarshalPayload l body of
                   None \<Rightarrow> (c, [WriteHeader 500])
                 | Some payload \<Rightarrow> dispatch c r payload))
           else (c, [WriteHeader 403])))"

section \<open>Outbound calls: errors, the remote side, and how a call can end\<close>

text \<open>
  The error values the operations return. The declarations of the error types are not among
  the sources; the fields are those the operations fill in where they build an error.
  \<open>InternalError\<close> carries its message; the cause it wraps is a library error and is left
  out. \<open>errors.As\<close> with a target of type \<open>*UnauthorizedError\<close> succeeds on
  \<open>UnauthorizedError\<close> only: no error built in these functions wraps one.
\<close>

datatype error =
  InternalError string
  | UnauthorizedError
  | DuplicateSubscriptionError Condition string
  | SubscriptionNotFoundError
  | VerificationTimeoutError Subscription
  | UnhandledStatusError int string

text \<open>
  An HTTP exchange ends with a transport error or with a response: its status code and its
  body (\<open>None\<close> when reading the body fails).
\<close>

datatype httpResult = TransportError | Response int "string option"

text \<open>
  Every call that leaves the client is recorded, in order: a request sent with
  \<open>httpClient.Do\<close> (method, URL, the headers set, body), a request sent through
  \<open>genericRequest\<close> (method, path, and the token the client holds at that moment), and a
  call of \<open>generateToken\<close> (client ID, client secret).
\<close>

datatype call =
  HttpDo string string "(string \<times> string) list" string
  | GenericRequest string string string
  | GenerateToken string string

text \<open>
  The remote side is a parameter. Each answer may depend on the calls made so far.
  \<open>helixURL\<close>, \<open>genericRequest\<close> and \<open>generateToken\<close> belong to the repository and are not
  among the sources; \<open>NewRequest\<close> says whether \<open>http.NewRequest\<close> accepts a method and a URL.
\<close>

record net =
  helixURL :: string
  NewRequest :: "string \<Rightarrow> string \<Rightarrow> bool"
  Do :: "call list \<Rightarrow> call \<Rightarrow> httpResult"
  genericRequest :: "call list \<Rightarrow> Client \<Rightarrow> string \<Rightarrow> string \<Rightarrow> httpResult"
  generateToken :: "call list \<Rightarrow> string \<Rightarrow> string \<Rightarrow> error + string"

text \<open>
  A call returns, panics (a Go run-time panic), or never returns (it blocks for ever, or its
  loop does not end).
\<close>

datatype 'a exec = Returns 'a | Panics | Hangs

text \<open>Indexing a slice panics out of range.\<close>

definition index :: "'a list \<Rightarrow> nat \<Rightarrow> 'a exec" where
  "index xs i = (if i < length xs then Returns (xs ! i) else Panics)"

section \<open>Creating a subscription (part\_000)\<close>

text \<open>
  The wait for the confirmation reads the verification channel with a timer of ten seconds
  that is started anew at each turn of the loop. The model is given the IDs the call
  receives before a timer fires, in order; with each ID, whether another goroutine takes the
  ID when this call puts it back (the channel is unbuffered: the send blocks until somebody
  receives). When the list is used up, nothing more arrives and the timer fires.
\<close>

fun awaitConfirmation ::
  "Subscription \<Rightarrow> (string \<times> bool) list \<Rightarrow> (string \<times> error option) exec" where
  "awaitConfirmation subscription [] =
     Returns ([], Some (VerificationTimeoutError subscription))"
| "awaitConfirmation subscription ((vid, taken) # rest) =
     (if vid = ID subscription then Returns (vid, None)
      else if taken then awaitConfirmation subscription rest
      else Hangs)"

definition addSubscription ::
  "lib \<Rightarrow> net \<Rightarrow> Client \<Rightarrow> call list \<Rightarrow> (string \<times> bool) list \<Rightarrow>
   string \<Rightarrow> string \<Rightarrow> Condition \<Rightarrow> ((string \<times> error option) \<times> call list) exec" where
  "addSubscription l n c tr deliveries Type' version condition =
     (case marshalRequest l
             \<lparr>reqType = Type', reqVersion = version, reqCondition = condition,
              reqTransport = \<lparr>Method = ''webhook'', Callback = webhookURL c,
                              Secret = webhookSecret c\<rparr>\<rparr> of
        None \<Rightarrow>
          Returns (([], Some (InternalError ''Could not serialize request body to JSON'')), tr)
      | Some reqBody \<Rightarrow>
          (let url = helixURL n @ ''/eventsub/subscriptions'' in
           if \<not> NewRequest n ''POST'' url then
             Returns (([], Some (InternalError ''Could not create request'')), tr)
           else
             (let request = HttpDo ''POST'' url
                    [(''Content-Type'', ''application/json''),
                     (''Client-ID'', clientID c),
                     (''Authorization'', ''Bearer '' @ token c)] reqBody;
                  tr' = tr @ [request]
              in
              case Do n tr request of
                TransportError \<Rightarrow>
                  Returns (([], Some (InternalError ''Could not send request'')), tr')
              | Response StatusCode read \<Rightarrow>
                  (case read of
                     None \<Rightarrow>
                       Returns (([], Some (InternalError ''Could not read response body'')), tr')
                   | Some body \<Rightarrow>
                       if StatusCode = 409 then
                         Returns (([], Some (DuplicateSubscriptionError condition Type')), tr')
                       else if StatusCode = 401 then
                         Returns (([], Some UnauthorizedError), tr')
                       else if StatusCode \<noteq> 202 then
                         Returns (([], Some (UnhandledStatusError StatusCode body)), tr')
                       else
                         (case unmarshalCreated l body of
                            None \<Rightarrow>
                              Returns (([], Some (InternalError ''Could not parse response body'')),
                                       tr')
                          | Some Data \<Rightarrow>
                              if length Data < 1 then
                                Returns (([], Some (InternalError
                                  ''Helix did not return the subscription they were supposed to'')),
                                  tr')
                              else
                                (case index Data 0 of
                                   Panics \<Rightarrow> Panics
                                 | Hangs \<Rightarrow> Hangs
                                 | Returns subscription \<Rightarrow>
                                     (case awaitConfirmation subscription deliveries of
                                        Panics \<Rightarrow> Panics
                                      | Hangs \<Rightarrow> Hangs
                                      | Returns res \<Rightarrow> Returns (res, tr'))))))))"

text \<open>
  The public operation. A first attempt that ends with the unauthorized error is followed by
  \<open>generateToken\<close> and a second attempt; that first attempt has not reached the wait, so the
  second one sees the same deliveries.
\<close>

definition AddSubscription ::
  "lib \<Rightarrow> net \<Rightarrow> Client \<Rightarrow> call list \<Rightarrow> (string \<times> bool) list \<Rightarrow>
   string \<Rightarrow> string \<Rightarrow> Condition \<Rightarrow> ((string \<times> error option) \<times> Client \<times> call list) exec" where
  "AddSubscription l n c tr deliveries Type' version condition =
     (case addSubscription l n c tr deliveries Type' version condition of
        Panics \<Rightarrow> Panics
      | Hangs \<Rightarrow> Hangs
      | Returns ((sid, err), tr1) \<Rightarrow>
          (case err of
             None \<Rightarrow> Returns ((sid, None), c, tr1)
           | Some e \<Rightarrow>
               if e = UnauthorizedError then
                 (let tr2 = tr1 @ [GenerateToken (clientID c) (clientSecret c)] in
                  case generateToken n tr1 (clientID c) (clientSecret c) of
                    Inl e' \<Rightarrow> Returns (([], Some e'), c, tr2)
                  | Inr tok \<Rightarrow>
                      (let c' = c\<lparr>token := tok\<rparr> in
                       case addSubscription l n c' tr2 deliveries Type' version condition of
                         Panics \<Rightarrow> Panics
                       | Hangs \<Rightarrow> Hangs
                       | Returns (res, tr3) \<Rightarrow> Returns (res, c', tr3)))
               else Returns ((sid, None), c, tr1)))"

section \<open>Removing a subscription (part\_000)\<close>

definition removeSubscription ::
  "net \<Rightarrow> Client \<Rightarrow> call list \<Rightarrow> string \<Rightarrow> error option \<times> call list" where
  "removeSubscription n c tr sid =
     (let url = ''/eventsub/subscriptions?id='' @ sid;
          tr' = tr @ [GenericRequest ''DELETE'' url (token c)]
      in
      case genericRequest n tr c ''DELETE'' url of
        TransportError \<Rightarrow> (Some (InternalError ''Could not make request''), tr')
      | Response StatusCode read \<Rightarrow>
          if StatusCode = 204 then (None, tr')
          else if StatusCode = 401 then (Some UnauthorizedError, tr')
          else if StatusCode = 404 then (Some SubscriptionNotFoundError, tr')
          else
            (case read of
               None \<Rightarrow> (Some (InternalError ''Could not read response body''), tr')
             | Some body \<Rightarrow> (Some (UnhandledStatusError StatusCode body), tr')))"

definition RemoveSubscription ::
  "net \<Rightarrow> Client \<Rightarrow> call list \<Rightarrow> string \<Rightarrow> error option \<times> Client \<times> call list" where
  "RemoveSubscription n c tr sid =
     (case removeSubscription n c tr sid of
        (None, tr1) \<Rightarrow> (None, c, tr1)
      | (Some e, tr1) \<Rightarrow>
          if e = UnauthorizedError then
            (let tr2 = tr1 @ [GenerateToken (clientID c) (clientSecret c)] in
             case generateToken n tr1 (clientID c) (clientSecret c) of
               Inl e' \<Rightarrow> (Some e', c, tr2)
             | Inr tok \<Rightarrow>
                 (let c' = c\<lparr>token := tok\<rparr> in
                  case removeSubscription n c' tr2 sid of
                    (res, tr3) \<Rightarrow> (res, c', tr3)))
          else (Some e, c, tr1))"

section \<open>Listing subscriptions (part\_000)\<close>

text \<open>
  One page: the request, and after a 401 one \<open>generateToken\<close> and the same request again.
  The result is the error returned, or the status and the body of the response that the
  rest of the loop reads.
\<close>

definition requestPage ::
  "net \<Rightarrow> Client \<Rightarrow> call list \<Rightarrow> string \<Rightarrow>
   (error + int \<times> string option) \<times> Client \<times> call list" where
  "requestPage n c tr params =
     (let url = ''/eventsub/subscriptions'' @ params;
          tr1 = tr @ [GenericRequest ''GET'' url (token c)]
      in
      case genericRequest n tr c ''GET'' url of
        TransportError \<Rightarrow> (Inl (InternalError ''Could not make request''), c, tr1)
      | Response StatusCode read \<Rightarrow>
          if StatusCode = 401 then
            (let tr2 = tr1 @ [GenerateToken (clientID c) (clientSecret c)] in
             case generateToken n tr1 (clientID c) (clientSecret c) of
               Inl e \<Rightarrow> (Inl e, c, tr2)
             | Inr tok \<Rightarrow>
                 (let c' = c\<lparr>token := tok\<rparr>;
                      tr3 = tr2 @ [GenericRequest ''GET'' url (token c')]
                  in
                  case genericRequest n tr2 c' ''GET'' url of
                    TransportError \<Rightarrow> (Inl (InternalError ''Could not make request''), c', tr3)
                  | Response StatusCode' read' \<Rightarrow> (Inr (StatusCode', read'), c', tr3)))
          else (Inr (StatusCode, read), c, tr1))"

text \<open>
  The loop of \<open>fetchSubscriptions\<close>, from a cursor and the subscriptions gathered so far.
  The loop ends only when a page has an empty cursor or an error is returned: \<open>None\<close> is a
  loop that does not end.
\<close>

partial_function (option) fetchLoop ::
  "lib \<Rightarrow> net \<Rightarrow> string \<Rightarrow> Client \<Rightarrow> call list \<Rightarrow> string \<Rightarrow> Subscription list \<Rightarrow>
   ((Subscription list \<times> error option) \<times> Client \<times> call list) option" where
  "fetchLoop l n urlParams c tr cursor subscriptions =
     (let params =
            (if cursor \<noteq> [] then
               (if urlParams = [] then urlParams @ ''?after='' @ cursor
                else ''&after='' @ cursor)
             else [])
      in
      case requestPage n c tr params of
        (Inl e, c', tr') \<Rightarrow> Some (([], Some e), c', tr')
      | (Inr (StatusCode, read), c', tr') \<Rightarrow>
          (case read of
             None \<Rightarrow> Some (([], Some (InternalError ''Could not read response body'')), c', tr')
           | Some body \<Rightarrow>
               if StatusCode \<noteq> 200 then
                 Some (([], Some (UnhandledStatusError StatusCode body)), c', tr')
               else
                 (case unmarshalPage l body of
                    None \<Rightarrow>
                      Some (([], Some (InternalError ''Could not parse response body'')), c', tr')
                  | Some (Data, Cursor) \<Rightarrow>
                      if Cursor = [] then Some ((subscriptions @ Data, None), c', tr')
                      else fetchLoop l n urlParams c' tr' Cursor (subscriptions @ Data))))"

definition fetchSubscriptions ::
  "lib \<Rightarrow> net \<Rightarrow> Client \<Rightarrow> call list \<Rightarrow> string \<Rightarrow>
   ((Subscription list \<times> error option) \<times> Client \<times> call list) exec" where
  "fetchSubscriptions l n c tr urlParams =
     (case fetchLoop l n urlParams c tr [] [] of
        None \<Rightarrow> Hangs
      | Some res \<Rightarrow> Returns res)"

definition GetSubscriptions ::
  "lib \<Rightarrow> net \<Rightarrow> Client \<Rightarrow> call list \<Rightarrow>
   ((Subscription list \<times> error option) \<times> Client \<times> call list) exec" where
  "GetSubscriptions l n c tr = fetchSubscriptions l n c tr []"

definition GetSubscriptionsByType ::
  "lib \<Rightarrow> net \<Rightarrow> Client \<Rightarrow> call list \<Rightarrow> string \<Rightarrow>
   ((Subscription list \<times> error option) \<times> Client \<times> call list) exec" where
  "GetSubscriptionsByType l n c tr Type' = fetchSubscriptions l n c tr (''?type='' @ Type')"

definition GetSubscriptionsByStatus ::
  "lib \<Rightarrow> net \<Rightarrow> Client \<Rightarrow> call list \<Rightarrow> string \<Rightarrow>
   ((Subscription list \<times> error option) \<times> Client \<times> call list) exec" where
  "GetSubscriptionsByStatus l n c tr status =
     fetchSubscriptions l n c tr (''?status='' @ status)"

section \<open>Removing by type and condition (part\_000)\<close>

text \<open>
  Go's \<open>==\<close> on two interface values: equal dynamic types and equal values; it panics when
  the two dynamic types are the same type and that type is not comparable. On two structs the
  fields are compared in source order, up to the first pair that differs.
\<close>

fun anyEq :: "any \<Rightarrow> any \<Rightarrow> bool exec" where
  "anyEq AnyNil AnyNil = Returns True"
| "anyEq (AnyComparable t v) (AnyComparable t' v') = Returns (t = t' \<and> v = v')"
| "anyEq (AnyUncomparable t) (AnyUncomparable t') = (if t = t' then Panics else Returns False)"
| "anyEq _ _ = Returns False"

definition conditionEq :: "Condition \<Rightarrow> Condition \<Rightarrow> bool exec" where
  "conditionEq a b =
     (if BroadcasterUserID a = BroadcasterUserID b \<and> ModeratorUserID a = ModeratorUserID b
         \<and> UserID a = UserID b \<and> FromBroadcasterUserID a = FromBroadcasterUserID b
         \<and> ToBroadcasterUserID a = ToBroadcasterUserID b
      then
        (case anyEq (RewardID a) (RewardID b) of
           Panics \<Rightarrow> Panics
         | Hangs \<Rightarrow> Hangs
         | Returns eq \<Rightarrow>
             Returns (eq \<and> ClientID a = ClientID b \<and> ExtensionClientID a = ExtensionClientID b
                      \<and> ConduitID a = ConduitID b \<and> OrganizationID a = OrganizationID b
                      \<and> CategoryID a = CategoryID b \<and> CampaignID a = CampaignID b))
      else Returns False)"

text \<open>The loop over the subscriptions listed.\<close>

fun removeMatching ::
  "net \<Rightarrow> Condition \<Rightarrow> Client \<Rightarrow> call list \<Rightarrow> Subscription list \<Rightarrow>
   (error option \<times> Client \<times> call list) exec" where
  "removeMatching n condition c tr [] = Returns (None, c, tr)"
| "removeMatching n condition c tr (sub # subs) =
     (case conditionEq (Condition sub) condition of
        Panics \<Rightarrow> Panics
      | Hangs \<Rightarrow> Hangs
      | Returns eq \<Rightarrow>
          if eq then
            (case RemoveSubscription n c tr (ID sub) of
               (Some e, c', tr') \<Rightarrow> Returns (Some e, c', tr')
             | (None, c', tr') \<Rightarrow> removeMatching n condition c' tr' subs)
          else removeMatching n condition c tr subs)"

definition RemoveSubscriptionByType ::
  "lib \<Rightarrow> net \<Rightarrow> Client \<Rightarrow> call list \<Rightarrow> string \<Rightarrow> Condition \<Rightarrow>
   (error option \<times> Client \<times> call list) exec" where
  "RemoveSubscriptionByType l n c tr Type' condition =
     (case GetSubscriptionsByType l n c tr Type' of
        Panics \<Rightarrow> Panics
      | Hangs \<Rightarrow> Hangs
      | Returns ((subs, err), c', tr') \<Rightarrow>
          (case err of
             Some e \<Rightarrow> Returns (Some e, c', tr')
           | None \<Rightarrow> removeMatching n condition c' tr' subs))"

section \<open>Concrete inputs\<close>

text \<open>
  A condition, two subscriptions with that condition and different types, a payload, a
  client with one handler registered for \<open>stream.online\<close>, and library functions that know a
  few inputs. \<open>hmacSha256\<close> is a stand-in here (key followed by message): the theorems below
  hold for every function in its place.
\<close>

definition exampleCondition :: Condition where
  "exampleCondition =
     \<lparr>BroadcasterUserID = ''215185844'', ModeratorUserID = [], UserID = [],
      FromBroadcasterUserID = [], ToBroadcasterUserID = [], RewardID = AnyNil,
      ClientID = [], ExtensionClientID = [], ConduitID = [], OrganizationID = [],
      CategoryID = [], CampaignID = []\<rparr>"

definition exampleSubscription :: Subscription where
  "exampleSubscription =
     \<lparr>ID = ''abc123'', Status = ''webhook_callback_verification_pending'',
      Type = ''stream.online'', Version = ''1'', Cost = 1, Condition = exampleCondition,
      TransportMethod = ''webhook'', TransportCallback = ''https://example.com/eventsub'',
      CreatedAt = 0\<rparr>"

definition offlineSubscription :: Subscription where
  "offlineSubscription =
     exampleSubscription\<lparr>ID := ''off456'', Status := ''enabled'', Type := ''stream.offline''\<rparr>"

definition examplePayload :: webhookPayload where
  "examplePayload =
     \<lparr>Challenge = ''pogchamp'', Subscription = exampleSubscription, Event = ''EVENT''\<rparr>"

definition exampleClient :: Client where
  "exampleClient =
     \<lparr>clientID = ''client-id'', clientSecret = ''client-secret'', token = ''token0'',
      webhookSecret = ''s3cre77890ab'', webhookURL = ''https://example.com/eventsub'',
      handledEvents = [], OnRevocation = None, handlers = [''stream.online'' \<mapsto> 7]\<rparr>"

definition exampleLib :: lib where
  "exampleLib =
     \<lparr>hmacSha256 = (\<lambda>key message. key @ message),
      parseRFC3339 =
        (\<lambda>s. if s = ''2024-01-01T00:00:00Z'' then Some (1704067200 * Second) else None),
      now = 1704067200 * Second,
      unmarshalPayload = (\<lambda>b. if b = ''PAYLOAD'' then Some examplePayload else None),
      marshalRequest = (\<lambda>q. Some ''REQUEST''),
      unmarshalCreated =
        (\<lambda>b. if b = ''CREATED'' then Some [exampleSubscription]
             else if b = ''EMPTY'' then Some []
             else None),
      unmarshalPage =
        (\<lambda>b. if b = ''PAGE1'' then Some ([exampleSubscription], ''c1'')
             else if b = ''PAGE2'' then Some ([offlineSubscription], [])
             else if b = ''NONE'' then Some ([], [])
             else None)\<rparr>"

text \<open>An inbound request signed with a secret, as the sender signs it.\<close>

definition signedRequest ::
  "lib \<Rightarrow> string \<Rightarrow> string \<Rightarrow> string \<Rightarrow> string \<Rightarrow> string \<Rightarrow> Request" where
  "signedRequest l secret mid ts mtype body =
     \<lparr>Header =
        [twitchMessageID \<mapsto> mid, twitchMessageTimestamp \<mapsto> ts, messageType \<mapsto> mtype,
         twitchMessageSignature \<mapsto> ''sha256='' @ generateHmac l secret (mid @ ts @ body)],
      Body = Some body\<rparr>"

text \<open>
  Remote sides. \<open>answeringNet status body\<close> answers every request with that status and
  body. \<open>pagedNet\<close> serves two pages of subscriptions, the first with the cursor \<open>c1\<close>.
  \<open>filteringNet\<close> holds one subscription, of type \<open>stream.offline\<close>: it lists it when no filter
  is sent, lists nothing for the filter \<open>type=stream.online\<close>, and deletes on request.
  \<open>expiredNet\<close> answers every request with 401.
\<close>

definition answeringNet :: "int \<Rightarrow> string \<Rightarrow> net" where
  "answeringNet status body =
     \<lparr>helixURL = ''https://api.twitch.tv/helix'',
      NewRequest = (\<lambda>m u. True),
      Do = (\<lambda>tr q. Response status (Some body)),
      genericRequest = (\<lambda>tr c m u. Response status (Some body)),
      generateToken = (\<lambda>tr i s. Inr ''token1'')\<rparr>"

definition pagedNet :: net where
  "pagedNet =
     \<lparr>helixURL = ''https://api.twitch.tv/helix'',
      NewRequest = (\<lambda>m u. True),
      Do = (\<lambda>tr q. TransportError),
      genericRequest =
        (\<lambda>tr c m u. if tr = [] then Response 200 (Some ''PAGE1'')
                    else Response 200 (Some ''PAGE2'')),
      generateToken = (\<lambda>tr i s. Inr ''token1'')\<rparr>"

definition filteringNet :: net where
  "filteringNet =
     \<lparr>helixURL = ''https://api.twitch.tv/helix'',
      NewRequest = (\<lambda>m u. True),
      Do = (\<lambda>tr q. TransportError),
      genericRequest =
        (\<lambda>tr c m u.
           if m = ''GET'' \<and> u = ''/eventsub/subscriptions?type=stream.online''
             then Response 200 (Some ''NONE'')
           else if m = ''GET'' \<and> u = ''/eventsub/subscriptions''
             then Response 200 (Some ''PAGE2'')
           else if m = ''DELETE'' then Response 204 (Some [])
           else Response 400 (Some ''bad request'')),
      generateToken = (\<lambda>tr i s. Inr ''token1'')\<rparr>"

definition expiredNet :: net where
  "expiredNet = answeringNet 401 ''unauthorized''"

section \<open>Auxiliary facts\<close>

lemma Get_signedRequest:
  "Get (signedRequest l secret mid ts mtype body) twitchMessageID = mid"
  "Get (signedRequest l secret mid ts mtype body) twitchMessageTimestamp = ts"
  "Get (signedRequest l secret mid ts mtype body) messageType = mtype"
  "Get (signedRequest l secret mid ts mtype body) twitchMessageSignature =
     ''sha256='' @ generateHmac l secret (mid @ ts @ body)"
  "Body (signedRequest l secret mid ts mtype body) = Some body"
  by (simp_all add: Get_def signedRequest_def twitchMessageID_def twitchMessageTimestamp_def
        messageType_def twitchMessageSignature_def)

lemma generateHmac_now: "generateHmac (l\<lparr>now := t\<rparr>) = generateHmac l"
  by (simp add: generateHmac_def fun_eq_iff)

lemma verifyHmac_same: "verifyHmac s s"
  by (simp add: verifyHmac_def)

lemma Handler_fresh_valid:
  assumes "Body r = Some body"
    and "verifyHmac (''sha256='' @ generateHmac l (GetWebhookSecret c)
           (Get r twitchMessageID @ Get r twitchMessageTimestamp @ body))
           (Get r twitchMessageSignature)"
    and "\<not> isMessageTooOld l (Get r twitchMessageTimestamp)"
  shows "Handler l c r =
           (case unmarshalPayload l body of
              None \<Rightarrow> (c, [WriteHeader 500])
            | Some payload \<Rightarrow> dispatch c r payload)"
  using assms by (simp add: Handler_def)

lemma Sub_more_than_ten_minutes: "t - u > 10 * Minute \<Longrightarrow> Sub t u > 10 * Minute"
  by (simp add: Sub_def Minute_def Second_def maxDuration_def minDuration_def)

lemma Sub_in_range: "minDuration \<le> t - u \<Longrightarrow> t - u \<le> maxDuration \<Longrightarrow> Sub t u = t - u"
  by (simp add: Sub_def)

lemma awaitConfirmation_no_panic: "awaitConfirmation s ds \<noteq> Panics"
  by (induction ds) (auto split: if_splits)

lemma addSubscription_no_panic:
  "addSubscription l n c tr deliveries Type' version condition \<noteq> Panics"
  by (simp add: addSubscription_def index_def Let_def awaitConfirmation_no_panic
           split: option.split httpResult.split exec.split)

lemma exampleLib_simps:
  "parseRFC3339 exampleLib ''2024-01-01T00:00:00Z'' = Some (1704067200 * Second)"
  "parseRFC3339 exampleLib ''yesterday'' = None"
  "unmarshalPayload exampleLib ''PAYLOAD'' = Some examplePayload"
  "now exampleLib = 1704067200 * Second"
  by (simp_all add: exampleLib_def)

lemma exampleClient_simps:
  "GetWebhookSecret exampleClient = ''s3cre77890ab''"
  "\<not> IsHandled exampleClient ''msg-1''"
  "MarkHandled exampleClient ''msg-1'' = exampleClient\<lparr>handledEvents := [''msg-1'']\<rparr>"
  "handlers exampleClient (Type (Subscription examplePayload)) = Some 7"
  "Event examplePayload = ''EVENT''"
  by (simp_all add: GetWebhookSecret_def IsHandled_def MarkHandled_def exampleClient_def
        examplePayload_def exampleSubscription_def)

lemma signedRequest_valid:
  assumes "generateHmac l' = generateHmac l"
  shows "verifyHmac
           (''sha256='' @ generateHmac l' secret
              (Get (signedRequest l secret mid ts mtype body) twitchMessageID @
               Get (signedRequest l secret mid ts mtype body) twitchMessageTimestamp @ body))
           (Get (signedRequest l secret mid ts mtype body) twitchMessageSignature)"
  by (simp only: Get_signedRequest assms verifyHmac_same)

text \<open>
  The hexadecimal encoding is injective, so the signature check compares the two MACs:
  whether it tells two inputs apart is a property of HMAC-SHA256 alone.
\<close>

lemma below16: "(x::nat) < 16 \<Longrightarrow> x \<in> set [0, 1, 2, 3, 4, 5, 6, 7, 8, 9, 10, 11, 12, 13, 14, 15]"
  by (simp only: set_simps insert_iff empty_iff) arith

lemma hexDigit_values:
  "map hexDigit [0, 1, 2, 3, 4, 5, 6, 7, 8, 9, 10, 11, 12, 13, 14, 15] = ''0123456789abcdef''"
  by (simp add: hexDigit_def)

lemma hexDigit_distinct: "distinct (map hexDigit [0, 1, 2, 3, 4, 5, 6, 7, 8, 9, 10, 11, 12, 13, 14, 15])"
  unfolding hexDigit_values by simp

lemma hexDigit_inj:
  assumes "x < 16" and "y < 16" and "hexDigit x = hexDigit y"
  shows "x = y"
  using hexDigit_distinct below16 [OF assms(1)] below16 [OF assms(2)] assms(3)
  unfolding distinct_map by (meson inj_onD)

lemma byte_digits_inj:
  assumes "hexDigit (of_char a div 16) = hexDigit (of_char b div 16)"
    and "hexDigit (of_char a mod 16) = hexDigit (of_char b mod 16)"
  shows "a = b"
proof -
  have da: "(of_char a :: nat) div 16 < 16"
    by (simp add: less_mult_imp_div_less)
  have db: "(of_char b :: nat) div 16 < 16"
    by (simp add: less_mult_imp_div_less)
  from da db assms(1) have d: "(of_char a :: nat) div 16 = of_char b div 16"
    by (rule hexDigit_inj)
  have "(of_char a :: nat) mod 16 < 16" and "(of_char b :: nat) mod 16 < 16"
    by simp_all
  then have m: "(of_char a :: nat) mod 16 = of_char b mod 16"
    using assms(2) by (rule hexDigit_inj)
  from d m have "(of_char a :: nat) = of_char b"
    by (metis div_mult_mod_eq)
  then show ?thesis by (rule of_char_eqI)
qed

lemma EncodeToString_Cons:
  "EncodeToString (b # bs) =
     hexDigit (of_char b div 16) # hexDigit (of_char b mod 16) # EncodeToString bs"
  by (simp add: EncodeToString_def)

lemma EncodeToString_inj: "EncodeToString xs = EncodeToString ys \<Longrightarrow> xs = ys"
proof (induction xs arbitrary: ys)
  case Nil
  then show ?case by (cases ys) (simp_all add: EncodeToString_def)
next
  case (Cons x xs)
  then obtain y ys' where ys: "ys = y # ys'"
    by (cases ys) (simp_all add: EncodeToString_def)
  from Cons.prems have "x = y" and "EncodeToString xs = EncodeToString ys'"
    unfolding ys EncodeToString_Cons by (auto intro: byte_digits_inj)
  with Cons.IH ys show ?case by simp
qed

lemma signature_check:
  "verifyHmac (''sha256='' @ generateHmac l secret message)
              (''sha256='' @ generateHmac l secret' message')
   \<longleftrightarrow> hmacSha256 l secret message = hmacSha256 l secret' message'"
  by (auto simp: verifyHmac_def generateHmac_def dest: EncodeToString_inj)

text \<open>
  An attempt that ends with an error other than the unauthorized one: \<open>AddSubscription\<close>
  returns what the attempt returned, without the error. After the unauthorized error and a
  new token, it returns what the second attempt returns, error included.
\<close>

lemma AddSubscription_first_error_dropped:
  assumes "addSubscription l n c tr deliveries Type' version condition = Returns ((sid, Some e), tr')"
    and "e \<noteq> UnauthorizedError"
  shows "AddSubscription l n c tr deliveries Type' version condition = Returns ((sid, None), c, tr')"
  using assms by (simp add: AddSubscription_def)

lemma AddSubscription_second_attempt:
  assumes "addSubscription l n c tr deliveries Type' version condition =
             Returns ((sid, Some UnauthorizedError), tr')"
    and "generateToken n tr' (clientID c) (clientSecret c) = Inr tok"
    and "addSubscription l n (c\<lparr>token := tok\<rparr>)
           (tr' @ [GenerateToken (clientID c) (clientSecret c)]) deliveries Type' version
           condition = Returns (res, tr'')"
  shows "AddSubscription l n c tr deliveries Type' version condition =
           Returns (res, c\<lparr>token := tok\<rparr>, tr'')"
  using assms by (simp add: AddSubscription_def Let_def)

text \<open>
  When \<open>generateToken\<close> fails after a 401, \<open>RemoveSubscription\<close> returns the error of
  \<open>generateToken\<close> and sends no second request.
\<close>

lemma RemoveSubscription_regeneration_fails:
  assumes "genericRequest n tr c ''DELETE'' (''/eventsub/subscriptions?id='' @ sid)
             = Response 401 read"
    and "generateToken n
           (tr @ [GenericRequest ''DELETE'' (''/eventsub/subscriptions?id='' @ sid) (token c)])
           (clientID c) (clientSecret c) = Inl e"
  shows "RemoveSubscription n c tr sid =
           (Some e, c,
            tr @ [GenericRequest ''DELETE'' (''/eventsub/subscriptions?id='' @ sid) (token c),
                  GenerateToken (clientID c) (clientSecret c)])"
  using assms by (simp add: RemoveSubscription_def removeSubscription_def Let_def)

text \<open>
  The loop of \<open>RemoveSubscriptionByType\<close> over the subscriptions listed: it sends nothing
  when no condition is equal, and it stops at the first removal that fails.
\<close>

lemma removeMatching_no_match:
  assumes "\<And>sub. sub \<in> set subs \<Longrightarrow> conditionEq (Condition sub) condition = Returns False"
  shows "removeMatching n condition c tr subs = Returns (None, c, tr)"
  using assms by (induction subs) simp_all

lemma removeMatching_first_failure:
  assumes "conditionEq (Condition sub) condition = Returns True"
    and "RemoveSubscription n c tr (ID sub) = (Some e, c', tr')"
  shows "removeMatching n condition c tr (sub # subs) = Returns (Some e, c', tr')"
  using assms by simp

text \<open>
  \<open>fetchSubscriptions\<close> only asks whether \<open>urlParams\<close> is empty: two filters, both not empty,
  give the same requests and the same result.
\<close>

lemma fetchLoop_filter_step:
  assumes run: "fetchLoop l n u c tr cursor subs = Some res" and other: "u' \<noteq> []"
  shows "u \<noteq> [] \<longrightarrow> fetchLoop l n u' c tr cursor subs = Some res"
proof (rule fetchLoop.raw_induct
         [where P = "\<lambda>l n u c tr cursor subs res.
                       u \<noteq> [] \<longrightarrow> fetchLoop l n u' c tr cursor subs = Some res",
          OF _ run])
  fix f l n u c tr cursor subs res
  assume IH: "\<And>l n u c tr cursor subs res.
                f l n u c tr cursor subs = Some res \<Longrightarrow>
                u \<noteq> [] \<longrightarrow> fetchLoop l n u' c tr cursor subs = Some res"
    and step:
      "(let params =
              (if cursor \<noteq> [] then
                 (if u = [] then u @ ''?after='' @ cursor else ''&after='' @ cursor)
               else [])
        in
        case requestPage n c tr params of
          (Inl e, c', tr') \<Rightarrow> Some (([], Some e), c', tr')
        | (Inr (StatusCode, read), c', tr') \<Rightarrow>
            (case read of
               None \<Rightarrow> Some (([], Some (InternalError ''Could not read response body'')), c', tr')
             | Some body \<Rightarrow>
                 if StatusCode \<noteq> 200 then
                   Some (([], Some (UnhandledStatusError StatusCode body)), c', tr')
                 else
                   (case unmarshalPage l body of
                      None \<Rightarrow>
                        Some (([], Some (InternalError ''Could not parse response body'')), c', tr')
                    | Some (Data, Cursor) \<Rightarrow>
                        if Cursor = [] then Some ((subs @ Data, None), c', tr')
                        else f l n u c' tr' Cursor (subs @ Data)))) = Some res"
  show "u \<noteq> [] \<longrightarrow> fetchLoop l n u' c tr cursor subs = Some res"
  proof
    assume u: "u \<noteq> []"
    define params where "params = (if cursor \<noteq> [] then ''&after='' @ cursor else [])"
    obtain r c' tr' where page: "requestPage n c tr params = (r, c', tr')"
      by (cases "requestPage n c tr params") auto
    have unfolded: "fetchLoop l n u' c tr cursor subs =
        (case r of
           Inl e \<Rightarrow> Some (([], Some e), c', tr')
         | Inr (StatusCode, read) \<Rightarrow>
             (case read of
                None \<Rightarrow> Some (([], Some (InternalError ''Could not read response body'')), c', tr')
              | Some body \<Rightarrow>
                  if StatusCode \<noteq> 200 then
                    Some (([], Some (UnhandledStatusError StatusCode body)), c', tr')
                  else
                    (case unmarshalPage l body of
                       None \<Rightarrow>
                         Some (([], Some (InternalError ''Could not parse response body'')), c', tr')
                     | Some (Data, Cursor) \<Rightarrow>
                         if Cursor = [] then Some ((subs @ Data, None), c', tr')
                         else fetchLoop l n u' c' tr' Cursor (subs @ Data))))"
      using other page
      by (subst fetchLoop.simps, cases "cursor = []") (simp_all add: Let_def params_def split: sum.split)
    have given: "(case r of
           Inl e \<Rightarrow> Some (([], Some e), c', tr')
         | Inr (StatusCode, read) \<Rightarrow>
             (case read of
                None \<Rightarrow> Some (([], Some (InternalError ''Could not read response body'')), c', tr')
              | Some body \<Rightarrow>
                  if StatusCode \<noteq> 200 then
                    Some (([], Some (UnhandledStatusError StatusCode body)), c', tr')
                  else
                    (case unmarshalPage l body of
                       None \<Rightarrow>
                         Some (([], Some (InternalError ''Could not parse response body'')), c', tr')
                     | Some (Data, Cursor) \<Rightarrow>
                         if Cursor = [] then Some ((subs @ Data, None), c', tr')
                         else f l n u c' tr' Cursor (subs @ Data)))) = Some res"
      using step u page
      by (cases "cursor = []") (auto simp: Let_def params_def split: sum.splits)
    have rec: "fetchLoop l n u' c'' tr'' cursor' subs' = Some res"
      if "f l n u c'' tr'' cursor' subs' = Some res" for c'' tr'' cursor' subs'
      using IH [OF that] u by simp
    show "fetchLoop l n u' c tr cursor subs = Some res"
      unfolding unfolded using given
      by (auto split: sum.splits option.splits if_splits prod.splits intro: rec)
  qed
qed

lemma fetchLoop_filter:
  assumes "u \<noteq> []" and "u' \<noteq> []"
  shows "fetchLoop l n u c tr cursor subs = fetchLoop l n u' c tr cursor subs"
proof (cases "fetchLoop l n u c tr cursor subs")
  case None
  show ?thesis
  proof (cases "fetchLoop l n u' c tr cursor subs")
    case None
    with \<open>fetchLoop l n u c tr cursor subs = None\<close> show ?thesis by simp
  next
    case (Some res)
    from fetchLoop_filter_step [OF Some assms(1)] assms(2) None show ?thesis by simp
  qed
next
  case (Some res)
  from fetchLoop_filter_step [OF Some assms(2)] assms(1) Some show ?thesis by simp
qed

lemma GetSubscriptionsByType_is_ByStatus:
  "GetSubscriptionsByType l n c tr Type' = GetSubscriptionsByStatus l n c tr status"
  using fetchLoop_filter [of "''?type='' @ Type'" "''?status='' @ status" l n c tr "[]" "[]"]
  by (simp add: GetSubscriptionsByType_def GetSubscriptionsByStatus_def fetchSubscriptions_def)

section \<open>Claims about the inbound handler\<close>

text \<open>
  C6. A validly signed message whose timestamp header parses to a time more than ten
  minutes before the clock is answered with 204 and nothing else happens: no handler is
  started. A validly signed notification that is ten minutes less one second old, with a
  payload that parses, an ID not yet handled and a handler registered for its type, is
  forwarded: the handler is started with the raw event. A validly signed message whose
  timestamp does not parse is not too old, and the handler goes on to parse and dispatch it.
\<close>

theorem Handler_freshness:
  assumes "Body r = Some body"
    and "verifyHmac (''sha256='' @ generateHmac l (GetWebhookSecret c)
           (Get r twitchMessageID @ Get r twitchMessageTimestamp @ body))
           (Get r twitchMessageSignature)"
  shows "(\<forall>t. parseRFC3339 l (Get r twitchMessageTimestamp) = Some t \<and> now l - t > 10 * Minute
            \<longrightarrow> Handler l c r = (c, [WriteHeader 204])) \<and>
         (\<forall>t payload handler.
            parseRFC3339 l (Get r twitchMessageTimestamp) = Some t \<and>
            now l - t = 10 * Minute - Second \<and>
            unmarshalPayload l body = Some payload \<and>
            Get r messageType = messageTypeNotification \<and>
            \<not> IsHandled c (Get r twitchMessageID) \<and>
            handlers c (Type (Subscription payload)) = Some handler
            \<longrightarrow> Handler l c r =
                  (MarkHandled c (Get r twitchMessageID),
                   [GoHandler handler (Event payload), WriteHeader 204])) \<and>
         (parseRFC3339 l (Get r twitchMessageTimestamp) = None
            \<longrightarrow> \<not> isMessageTooOld l (Get r twitchMessageTimestamp) \<and>
                Handler l c r =
                  (case unmarshalPayload l body of
                     None \<Rightarrow> (c, [WriteHeader 500])
                   | Some payload \<Rightarrow> dispatch c r payload))"
proof (intro conjI allI impI)
  fix t
  assume "parseRFC3339 l (Get r twitchMessageTimestamp) = Some t \<and> now l - t > 10 * Minute"
  then have "isMessageTooOld l (Get r twitchMessageTimestamp)"
    by (simp add: isMessageTooOld_def Since_def Sub_more_than_ten_minutes)
  with assms show "Handler l c r = (c, [WriteHeader 204])"
    by (simp add: Handler_def)
next
  fix t payload handler
  assume h: "parseRFC3339 l (Get r twitchMessageTimestamp) = Some t \<and>
            now l - t = 10 * Minute - Second \<and>
            unmarshalPayload l body = Some payload \<and>
            Get r messageType = messageTypeNotification \<and>
            \<not> IsHandled c (Get r twitchMessageID) \<and>
            handlers c (Type (Subscription payload)) = Some handler"
  then have "Sub (now l) t = 10 * Minute - Second"
    by (simp add: Sub_in_range Minute_def Second_def maxDuration_def minDuration_def)
  with h have "\<not> isMessageTooOld l (Get r twitchMessageTimestamp)"
    by (simp add: isMessageTooOld_def Since_def Second_def)
  with assms h show "Handler l c r =
                  (MarkHandled c (Get r twitchMessageID),
                   [GoHandler handler (Event payload), WriteHeader 204])"
    by (simp add: Handler_fresh_valid dispatch_def MarkHandled_def)
next
  assume h: "parseRFC3339 l (Get r twitchMessageTimestamp) = None"
  then show "\<not> isMessageTooOld l (Get r twitchMessageTimestamp)"
    by (simp add: isMessageTooOld_def)
  with assms show "Handler l c r =
                  (case unmarshalPayload l body of
                     None \<Rightarrow> (c, [WriteHeader 500])
                   | Some payload \<Rightarrow> dispatch c r payload)"
    by (simp add: Handler_fresh_valid)
qed

theorem Handler_freshness_witness:
  "Handler (exampleLib\<lparr>now := 1704067200 * Second + 10 * Minute + 1\<rparr>) exampleClient
     (signedRequest exampleLib ''s3cre77890ab'' ''msg-1'' ''2024-01-01T00:00:00Z''
        ''notification'' ''PAYLOAD'')
   = (exampleClient, [WriteHeader 204]) \<and>
   Handler (exampleLib\<lparr>now := 1704067200 * Second + 10 * Minute - Second\<rparr>) exampleClient
     (signedRequest exampleLib ''s3cre77890ab'' ''msg-1'' ''2024-01-01T00:00:00Z''
        ''notification'' ''PAYLOAD'')
   = (exampleClient\<lparr>handledEvents := [''msg-1'']\<rparr>, [GoHandler 7 ''EVENT'', WriteHeader 204]) \<and>
   Handler exampleLib exampleClient
     (signedRequest exampleLib ''s3cre77890ab'' ''msg-1'' ''yesterday''
        ''notification'' ''PAYLOAD'')
   = (exampleClient\<lparr>handledEvents := [''msg-1'']\<rparr>, [GoHandler 7 ''EVENT'', WriteHeader 204])"
proof -
  let ?old = "exampleLib\<lparr>now := 1704067200 * Second + 10 * Minute + 1\<rparr>"
  let ?new = "exampleLib\<lparr>now := 1704067200 * Second + 10 * Minute - Second\<rparr>"
  let ?r = "signedRequest exampleLib ''s3cre77890ab'' ''msg-1'' ''2024-01-01T00:00:00Z''
              ''notification'' ''PAYLOAD''"
  let ?u = "signedRequest exampleLib ''s3cre77890ab'' ''msg-1'' ''yesterday''
              ''notification'' ''PAYLOAD''"
  have valid: "verifyHmac (''sha256='' @ generateHmac l' (GetWebhookSecret exampleClient)
           (Get (signedRequest exampleLib ''s3cre77890ab'' ''msg-1'' ts ''notification''
                   ''PAYLOAD'') twitchMessageID @
            Get (signedRequest exampleLib ''s3cre77890ab'' ''msg-1'' ts ''notification''
                   ''PAYLOAD'') twitchMessageTimestamp @ ''PAYLOAD''))
           (Get (signedRequest exampleLib ''s3cre77890ab'' ''msg-1'' ts ''notification''
                   ''PAYLOAD'') twitchMessageSignature)"
    if "generateHmac l' = generateHmac exampleLib" for l' ts
    unfolding exampleClient_simps using that by (rule signedRequest_valid)
  have "parseRFC3339 ?old (Get ?r twitchMessageTimestamp) = Some (1704067200 * Second) \<and>
        now ?old - 1704067200 * Second > 10 * Minute"
    by (simp add: Get_signedRequest exampleLib_simps)
  with Handler_freshness [OF Get_signedRequest(5) valid [OF generateHmac_now]]
  have old: "Handler ?old exampleClient ?r = (exampleClient, [WriteHeader 204])"
    by blast
  have "parseRFC3339 ?new (Get ?r twitchMessageTimestamp) = Some (1704067200 * Second) \<and>
        now ?new - 1704067200 * Second = 10 * Minute - Second \<and>
        unmarshalPayload ?new ''PAYLOAD'' = Some examplePayload \<and>
        Get ?r messageType = messageTypeNotification \<and>
        \<not> IsHandled exampleClient (Get ?r twitchMessageID) \<and>
        handlers exampleClient (Type (Subscription examplePayload)) = Some 7"
    by (simp add: Get_signedRequest exampleLib_simps exampleClient_simps
          messageTypeNotification_def)
  with Handler_freshness [OF Get_signedRequest(5) valid [OF generateHmac_now]]
  have "Handler ?new exampleClient ?r =
      (MarkHandled exampleClient (Get ?r twitchMessageID),
       [GoHandler 7 (Event examplePayload), WriteHeader 204])"
    by blast
  then have new: "Handler ?new exampleClient ?r =
      (exampleClient\<lparr>handledEvents := [''msg-1'']\<rparr>, [GoHandler 7 ''EVENT'', WriteHeader 204])"
    by (simp only: Get_signedRequest exampleClient_simps)
  have "parseRFC3339 exampleLib (Get ?u twitchMessageTimestamp) = None"
    by (simp add: Get_signedRequest exampleLib_simps)
  with Handler_freshness [OF Get_signedRequest(5) valid [OF refl]]
  have "Handler exampleLib exampleClient ?u =
      (case unmarshalPayload exampleLib ''PAYLOAD'' of
         None \<Rightarrow> (exampleClient, [WriteHeader 500])
       | Some payload \<Rightarrow> dispatch exampleClient ?u payload)"
    by blast
  then have unparsed: "Handler exampleLib exampleClient ?u =
      (exampleClient\<lparr>handledEvents := [''msg-1'']\<rparr>, [GoHandler 7 ''EVENT'', WriteHeader 204])"
    by (simp add: exampleLib_simps dispatch_def Get_signedRequest exampleClient_simps
          messageTypeNotification_def)
  from old new unparsed show ?thesis by blast
qed

text \<open>
  C7. For a validly signed, fresh notification whose payload parses: when the message ID is
  already marked handled, the handler answers 204 and does nothing else; when it is not, the
  ID is marked handled, the handler registered for the subscription type (if there is one) is
  started with the raw event, and the answer is 204.
\<close>

theorem Handler_notification_dedup:
  assumes "Body r = Some body"
    and "verifyHmac (''sha256='' @ generateHmac l (GetWebhookSecret c)
           (Get r twitchMessageID @ Get r twitchMessageTimestamp @ body))
           (Get r twitchMessageSignature)"
    and "\<not> isMessageTooOld l (Get r twitchMessageTimestamp)"
    and "unmarshalPayload l body = Some payload"
    and "Get r messageType = messageTypeNotification"
  shows "(IsHandled c (Get r twitchMessageID) \<longrightarrow> Handler l c r = (c, [WriteHeader 204])) \<and>
         (\<not> IsHandled c (Get r twitchMessageID) \<longrightarrow>
            IsHandled (fst (Handler l c r)) (Get r twitchMessageID) \<and>
            Handler l c r =
              (MarkHandled c (Get r twitchMessageID),
               (case handlers c (Type (Subscription payload)) of
                  Some handler \<Rightarrow> [GoHandler handler (Event payload)]
                | None \<Rightarrow> []) @ [WriteHeader 204]))"
  using assms
  by (simp add: Handler_fresh_valid dispatch_def IsHandled_def MarkHandled_def
           split: option.split)

theorem Handler_notification_dedup_witness:
  "Handler exampleLib (exampleClient\<lparr>handledEvents := [''msg-1'']\<rparr>)
     (signedRequest exampleLib ''s3cre77890ab'' ''msg-1'' ''2024-01-01T00:00:00Z''
        ''notification'' ''PAYLOAD'')
   = (exampleClient\<lparr>handledEvents := [''msg-1'']\<rparr>, [WriteHeader 204]) \<and>
   Handler exampleLib exampleClient
     (signedRequest exampleLib ''s3cre77890ab'' ''msg-1'' ''2024-01-01T00:00:00Z''
        ''notification'' ''PAYLOAD'')
   = (exampleClient\<lparr>handledEvents := [''msg-1'']\<rparr>, [GoHandler 7 ''EVENT'', WriteHeader 204])"
proof -
  let ?r = "signedRequest exampleLib ''s3cre77890ab'' ''msg-1'' ''2024-01-01T00:00:00Z''
              ''notification'' ''PAYLOAD''"
  let ?seen = "exampleClient\<lparr>handledEvents := [''msg-1'']\<rparr>"
  have secret: "GetWebhookSecret ?seen = ''s3cre77890ab''"
    by (simp add: GetWebhookSecret_def exampleClient_def)
  have valid: "verifyHmac (''sha256='' @ generateHmac exampleLib (GetWebhookSecret c')
           (Get ?r twitchMessageID @ Get ?r twitchMessageTimestamp @ ''PAYLOAD''))
           (Get ?r twitchMessageSignature)"
    if "GetWebhookSecret c' = ''s3cre77890ab''" for c'
    unfolding that by (rule signedRequest_valid [OF refl])
  have fresh: "\<not> isMessageTooOld exampleLib (Get ?r twitchMessageTimestamp)"
    by (simp add: Get_signedRequest isMessageTooOld_def exampleLib_simps Since_def Sub_def
          Minute_def Second_def maxDuration_def minDuration_def)
  have kind: "Get ?r messageType = messageTypeNotification"
    by (simp add: Get_signedRequest messageTypeNotification_def)
  have "IsHandled ?seen (Get ?r twitchMessageID)"
    by (simp add: Get_signedRequest IsHandled_def)
  with Handler_notification_dedup
         [OF Get_signedRequest(5) valid [OF secret] fresh exampleLib_simps(3) kind]
  have seen: "Handler exampleLib ?seen ?r = (?seen, [WriteHeader 204])"
    by blast
  have "\<not> IsHandled exampleClient (Get ?r twitchMessageID)"
    by (simp add: Get_signedRequest exampleClient_simps)
  with Handler_notification_dedup
         [OF Get_signedRequest(5) valid [OF exampleClient_simps(1)] fresh exampleLib_simps(3) kind]
  have "Handler exampleLib exampleClient ?r =
          (MarkHandled exampleClient (Get ?r twitchMessageID),
           (case handlers exampleClient (Type (Subscription examplePayload)) of
              Some handler \<Rightarrow> [GoHandler handler (Event examplePayload)]
            | None \<Rightarrow> []) @ [WriteHeader 204])"
    by blast
  then have unseen: "Handler exampleLib exampleClient ?r =
      (?seen, [GoHandler 7 ''EVENT'', WriteHeader 204])"
    by (simp add: Get_signedRequest exampleClient_simps)
  from seen unseen show ?thesis by blast
qed

text \<open>
  C10. For a validly signed, fresh request whose message type is none of
  \<open>notification\<close>, \<open>webhook_callback_verification\<close> and \<open>revocation\<close>, the handler leaves the
  client as it is (no message ID is marked handled) and starts no user handler, sends
  nothing to the verification channel and does not call the revocation callback: it writes
  status 500 when the body does not parse and writes nothing otherwise.
\<close>

theorem Handler_unknown_message_type:
  assumes "Body r = Some body"
    and "verifyHmac (''sha256='' @ generateHmac l (GetWebhookSecret c)
           (Get r twitchMessageID @ Get r twitchMessageTimestamp @ body))
           (Get r twitchMessageSignature)"
    and "\<not> isMessageTooOld l (Get r twitchMessageTimestamp)"
    and "Get r messageType \<noteq> messageTypeNotification"
    and "Get r messageType \<noteq> messageTypeVerification"
    and "Get r messageType \<noteq> messageTypeRevocation"
  shows "Handler l c r =
           (c, case unmarshalPayload l body of None \<Rightarrow> [WriteHeader 500] | Some payload \<Rightarrow> [])"
  using assms by (simp add: Handler_fresh_valid dispatch_def split: option.split)

theorem Handler_unknown_message_type_witness:
  "Handler exampleLib exampleClient
     (signedRequest exampleLib ''s3cre77890ab'' ''msg-1'' ''2024-01-01T00:00:00Z''
        ''session_keepalive'' ''PAYLOAD'')
   = (exampleClient, []) \<and>
   Handler exampleLib exampleClient
     (signedRequest exampleLib ''s3cre77890ab'' ''msg-1'' ''2024-01-01T00:00:00Z''
        ''session_keepalive'' ''not json'')
   = (exampleClient, [WriteHeader 500])"
proof -
  have valid: "verifyHmac (''sha256='' @ generateHmac exampleLib (GetWebhookSecret exampleClient)
           (Get (signedRequest exampleLib ''s3cre77890ab'' ''msg-1'' ''2024-01-01T00:00:00Z''
                   ''session_keepalive'' body) twitchMessageID @
            Get (signedRequest exampleLib ''s3cre77890ab'' ''msg-1'' ''2024-01-01T00:00:00Z''
                   ''session_keepalive'' body) twitchMessageTimestamp @ body))
           (Get (signedRequest exampleLib ''s3cre77890ab'' ''msg-1'' ''2024-01-01T00:00:00Z''
                   ''session_keepalive'' body) twitchMessageSignature)" for body
    unfolding exampleClient_simps by (rule signedRequest_valid [OF refl])
  have fresh: "\<not> isMessageTooOld exampleLib
           (Get (signedRequest exampleLib ''s3cre77890ab'' ''msg-1'' ''2024-01-01T00:00:00Z''
                   ''session_keepalive'' body) twitchMessageTimestamp)" for body
    by (simp add: Get_signedRequest isMessageTooOld_def exampleLib_simps Since_def Sub_def
          Minute_def Second_def maxDuration_def minDuration_def)
  have kind:
    "Get (signedRequest exampleLib ''s3cre77890ab'' ''msg-1'' ''2024-01-01T00:00:00Z''
            ''session_keepalive'' body) messageType \<noteq> messageTypeNotification"
    "Get (signedRequest exampleLib ''s3cre77890ab'' ''msg-1'' ''2024-01-01T00:00:00Z''
            ''session_keepalive'' body) messageType \<noteq> messageTypeVerification"
    "Get (signedRequest exampleLib ''s3cre77890ab'' ''msg-1'' ''2024-01-01T00:00:00Z''
            ''session_keepalive'' body) messageType \<noteq> messageTypeRevocation" for body
    by (simp_all add: Get_signedRequest messageTypeNotification_def messageTypeVerification_def
          messageTypeRevocation_def)
  have junk: "unmarshalPayload exampleLib ''not json'' = None"
    by (simp add: exampleLib_def)
  note known = Handler_unknown_message_type [OF Get_signedRequest(5) valid fresh kind]
  show ?thesis
    using known [of "''PAYLOAD''"] known [of "''not json''"]
    by (simp add: exampleLib_simps junk)
qed

section \<open>Claims about the outbound operations\<close>

text \<open>
  C8. \<open>RemoveSubscription\<close>. A first response other than 401 decides the result with one
  DELETE call: 204 is no error, 404 is \<open>SubscriptionNotFoundError\<close>, any other status, when
  its body can be read, is \<open>UnhandledStatusError\<close> with the status and the body. A first response 401 is followed by exactly one \<open>generateToken\<close> and, when that
  yields a token, by exactly one more DELETE call, sent with the new token; its response
  decides the result in the same way, and a second 401 is returned as \<open>UnauthorizedError\<close>
  with no further call.
\<close>

theorem RemoveSubscription_unauthorized_retry:
  "(\<forall>status read body.
      genericRequest n tr c ''DELETE'' (''/eventsub/subscriptions?id='' @ sid)
        = Response status read \<and> status \<noteq> 401 \<and>
      (status = 204 \<or> status = 404 \<or> read = Some body)
      \<longrightarrow> RemoveSubscription n c tr sid =
            (if status = 204 then None
             else if status = 404 then Some SubscriptionNotFoundError
             else Some (UnhandledStatusError status body),
             c,
             tr @ [GenericRequest ''DELETE'' (''/eventsub/subscriptions?id='' @ sid) (token c)])) \<and>
   (\<forall>read' tok status read body.
      genericRequest n tr c ''DELETE'' (''/eventsub/subscriptions?id='' @ sid)
        = Response 401 read' \<and>
      generateToken n
        (tr @ [GenericRequest ''DELETE'' (''/eventsub/subscriptions?id='' @ sid) (token c)])
        (clientID c) (clientSecret c) = Inr tok \<and>
      genericRequest n
        (tr @ [GenericRequest ''DELETE'' (''/eventsub/subscriptions?id='' @ sid) (token c),
               GenerateToken (clientID c) (clientSecret c)])
        (c\<lparr>token := tok\<rparr>) ''DELETE'' (''/eventsub/subscriptions?id='' @ sid)
        = Response status read \<and>
      (status = 204 \<or> status = 401 \<or> status = 404 \<or> read = Some body)
      \<longrightarrow> RemoveSubscription n c tr sid =
            (if status = 204 then None
             else if status = 401 then Some UnauthorizedError
             else if status = 404 then Some SubscriptionNotFoundError
             else Some (UnhandledStatusError status body),
             c\<lparr>token := tok\<rparr>,
             tr @ [GenericRequest ''DELETE'' (''/eventsub/subscriptions?id='' @ sid) (token c),
                   GenerateToken (clientID c) (clientSecret c),
                   GenericRequest ''DELETE'' (''/eventsub/subscriptions?id='' @ sid) tok]))"
proof (intro conjI allI impI, goal_cases)
  case (1 status read body)
  then show ?case
    by (auto simp: RemoveSubscription_def removeSubscription_def Let_def)
next
  case (2 read' tok status read body)
  then show ?case
    by (auto simp: RemoveSubscription_def removeSubscription_def Let_def)
qed

theorem RemoveSubscription_unauthorized_retry_witness:
  "RemoveSubscription (answeringNet 204 []) exampleClient [] ''abc123'' =
     (None, exampleClient,
      [GenericRequest ''DELETE'' ''/eventsub/subscriptions?id=abc123'' ''token0'']) \<and>
   RemoveSubscription expiredNet exampleClient [] ''abc123'' =
     (Some UnauthorizedError, exampleClient\<lparr>token := ''token1''\<rparr>,
      [GenericRequest ''DELETE'' ''/eventsub/subscriptions?id=abc123'' ''token0'',
       GenerateToken ''client-id'' ''client-secret'',
       GenericRequest ''DELETE'' ''/eventsub/subscriptions?id=abc123'' ''token1''])"
proof -
  have "genericRequest (answeringNet 204 []) [] exampleClient ''DELETE''
          (''/eventsub/subscriptions?id='' @ ''abc123'') = Response 204 (Some []) \<and>
        (204::int) \<noteq> 401 \<and>
        ((204::int) = 204 \<or> (204::int) = 404 \<or> Some [] = Some [])"
    by (simp add: answeringNet_def)
  with RemoveSubscription_unauthorized_retry
         [of "answeringNet 204 []" "[]" exampleClient "''abc123''"]
  have "RemoveSubscription (answeringNet 204 []) exampleClient [] ''abc123'' =
          (if (204::int) = 204 then None
           else if (204::int) = 404 then Some SubscriptionNotFoundError
           else Some (UnhandledStatusError 204 []),
           exampleClient,
           [] @ [GenericRequest ''DELETE'' (''/eventsub/subscriptions?id='' @ ''abc123'')
                   (token exampleClient)])"
    by blast
  then have first: "RemoveSubscription (answeringNet 204 []) exampleClient [] ''abc123'' =
     (None, exampleClient,
      [GenericRequest ''DELETE'' ''/eventsub/subscriptions?id=abc123'' ''token0''])"
    by (simp add: exampleClient_def)
  have "genericRequest expiredNet [] exampleClient ''DELETE''
          (''/eventsub/subscriptions?id='' @ ''abc123'') = Response 401 (Some ''unauthorized'') \<and>
        generateToken expiredNet
          ([] @ [GenericRequest ''DELETE'' (''/eventsub/subscriptions?id='' @ ''abc123'')
                   (token exampleClient)])
          (clientID exampleClient) (clientSecret exampleClient) = Inr ''token1'' \<and>
        genericRequest expiredNet
          ([] @ [GenericRequest ''DELETE'' (''/eventsub/subscriptions?id='' @ ''abc123'')
                   (token exampleClient),
                 GenerateToken (clientID exampleClient) (clientSecret exampleClient)])
          (exampleClient\<lparr>token := ''token1''\<rparr>) ''DELETE''
          (''/eventsub/subscriptions?id='' @ ''abc123'') = Response 401 (Some ''unauthorized'') \<and>
        ((401::int) = 204 \<or> (401::int) = 401 \<or> (401::int) = 404 \<or>
         Some ''unauthorized'' = Some ''unauthorized'')"
    by (simp add: expiredNet_def answeringNet_def)
  with RemoveSubscription_unauthorized_retry
         [of expiredNet "[]" exampleClient "''abc123''"]
  have "RemoveSubscription expiredNet exampleClient [] ''abc123'' =
          (if (401::int) = 204 then None
           else if (401::int) = 401 then Some UnauthorizedError
           else if (401::int) = 404 then Some SubscriptionNotFoundError
           else Some (UnhandledStatusError 401 ''unauthorized''),
           exampleClient\<lparr>token := ''token1''\<rparr>,
           [] @ [GenericRequest ''DELETE'' (''/eventsub/subscriptions?id='' @ ''abc123'')
                   (token exampleClient),
                 GenerateToken (clientID exampleClient) (clientSecret exampleClient),
                 GenericRequest ''DELETE'' (''/eventsub/subscriptions?id='' @ ''abc123'')
                   ''token1''])"
    by blast
  then have second: "RemoveSubscription expiredNet exampleClient [] ''abc123'' =
     (Some UnauthorizedError, exampleClient\<lparr>token := ''token1''\<rparr>,
      [GenericRequest ''DELETE'' ''/eventsub/subscriptions?id=abc123'' ''token0'',
       GenerateToken ''client-id'' ''client-secret'',
       GenericRequest ''DELETE'' ''/eventsub/subscriptions?id=abc123'' ''token1''])"
    by (simp add: exampleClient_def)
  from first second show ?thesis by blast
qed

text \<open>
  Neither \<open>addSubscription\<close> nor \<open>AddSubscription\<close> panics: the first element of the data
  array is read only after the check on its length. When the creation endpoint answers 202
  with a body whose data array is empty, the attempt \<open>addSubscription\<close> ends with an
  \<open>InternalError\<close>, and \<open>AddSubscription\<close> returns the empty ID and no error.
\<close>

lemma addSubscription_guards_index:
  "addSubscription l n c tr deliveries Type' version condition \<noteq> Panics \<and>
   AddSubscription l n c tr deliveries Type' version condition \<noteq> Panics \<and>
   (\<forall>reqBody body.
      marshalRequest l
        \<lparr>reqType = Type', reqVersion = version, reqCondition = condition,
         reqTransport = \<lparr>Method = ''webhook'', Callback = webhookURL c,
                         Secret = webhookSecret c\<rparr>\<rparr> = Some reqBody \<and>
      NewRequest n ''POST'' (helixURL n @ ''/eventsub/subscriptions'') \<and>
      Do n tr (HttpDo ''POST'' (helixURL n @ ''/eventsub/subscriptions'')
                 [(''Content-Type'', ''application/json''),
                  (''Client-ID'', clientID c),
                  (''Authorization'', ''Bearer '' @ token c)] reqBody)
        = Response 202 (Some body) \<and>
      unmarshalCreated l body = Some []
      \<longrightarrow> addSubscription l n c tr deliveries Type' version condition =
            Returns (([], Some (InternalError
                        ''Helix did not return the subscription they were supposed to'')),
                     tr @ [HttpDo ''POST'' (helixURL n @ ''/eventsub/subscriptions'')
                             [(''Content-Type'', ''application/json''),
                              (''Client-ID'', clientID c),
                              (''Authorization'', ''Bearer '' @ token c)] reqBody]))"
proof (intro conjI allI impI, goal_cases)
  case 1
  show ?case
    by (rule addSubscription_no_panic)
next
  case 2
  show ?case
    using addSubscription_no_panic [of l n c tr deliveries Type' version condition]
    by (auto simp: AddSubscription_def Let_def addSubscription_no_panic
             split: exec.splits option.splits sum.splits)
next
  case (3 reqBody body)
  then show ?case
    by (simp add: addSubscription_def)
qed

lemma AddSubscription_empty_data_no_error:
  assumes "marshalRequest l
        \<lparr>reqType = Type', reqVersion = version, reqCondition = condition,
         reqTransport = \<lparr>Method = ''webhook'', Callback = webhookURL c,
                         Secret = webhookSecret c\<rparr>\<rparr> = Some reqBody"
    and "NewRequest n ''POST'' (helixURL n @ ''/eventsub/subscriptions'')"
    and "Do n tr (HttpDo ''POST'' (helixURL n @ ''/eventsub/subscriptions'')
                 [(''Content-Type'', ''application/json''),
                  (''Client-ID'', clientID c),
                  (''Authorization'', ''Bearer '' @ token c)] reqBody)
        = Response 202 (Some body)"
    and "unmarshalCreated l body = Some []"
  shows "AddSubscription l n c tr deliveries Type' version condition =
           Returns (([], None), c,
                    tr @ [HttpDo ''POST'' (helixURL n @ ''/eventsub/subscriptions'')
                            [(''Content-Type'', ''application/json''),
                             (''Client-ID'', clientID c),
                             (''Authorization'', ''Bearer '' @ token c)] reqBody])"
proof -
  from assms have "addSubscription l n c tr deliveries Type' version condition =
            Returns (([], Some (InternalError
                        ''Helix did not return the subscription they were supposed to'')),
                     tr @ [HttpDo ''POST'' (helixURL n @ ''/eventsub/subscriptions'')
                             [(''Content-Type'', ''application/json''),
                              (''Client-ID'', clientID c),
                              (''Authorization'', ''Bearer '' @ token c)] reqBody])"
    using addSubscription_guards_index [of l n c tr deliveries Type' version condition]
    by blast
  then show ?thesis
    by (rule AddSubscription_first_error_dropped) simp
qed

section \<open>Where the code departs from the specification\<close>

text \<open>
  C1 says that every typed error of the creation attempt is returned to the caller of
  \<open>AddSubscription\<close>. The code returns \<open>id, nil\<close> after an attempt that failed with an error
  other than the unauthorized one. Here the remote side answers 409: the attempt ends with
  \<open>DuplicateSubscriptionError\<close>, and \<open>AddSubscription\<close> returns the empty ID and no error.
\<close>

theorem AddSubscription_drops_duplicate_error:
  "addSubscription exampleLib (answeringNet 409 ''conflict'') exampleClient [] []
     ''stream.online'' ''1'' exampleCondition =
   Returns (([], Some (DuplicateSubscriptionError exampleCondition ''stream.online'')),
            [HttpDo ''POST'' ''https://api.twitch.tv/helix/eventsub/subscriptions''
               [(''Content-Type'', ''application/json''),
                (''Client-ID'', ''client-id''),
                (''Authorization'', ''Bearer token0'')] ''REQUEST'']) \<and>
   AddSubscription exampleLib (answeringNet 409 ''conflict'') exampleClient [] []
     ''stream.online'' ''1'' exampleCondition =
   Returns (([], None), exampleClient,
            [HttpDo ''POST'' ''https://api.twitch.tv/helix/eventsub/subscriptions''
               [(''Content-Type'', ''application/json''),
                (''Client-ID'', ''client-id''),
                (''Authorization'', ''Bearer token0'')] ''REQUEST''])"
  by (simp add: AddSubscription_def addSubscription_def exampleLib_def answeringNet_def
        exampleClient_def)

text \<open>
  C2 says that every list request of \<open>GetSubscriptionsByType\<close> carries the type filter, and
  that later pages append the cursor in well-formed query syntax. The code never puts
  \<open>urlParams\<close> into the path: the first request has no query at all, and the second one is
  \<open>/eventsub/subscriptions&after=c1\<close>.
\<close>

theorem GetSubscriptionsByType_sends_no_filter:
  "GetSubscriptionsByType exampleLib pagedNet exampleClient [] ''stream.online'' =
   Returns (([exampleSubscription, offlineSubscription], None), exampleClient,
            [GenericRequest ''GET'' ''/eventsub/subscriptions'' ''token0'',
             GenericRequest ''GET'' ''/eventsub/subscriptions&after=c1'' ''token0''])"
  by (simp add: GetSubscriptionsByType_def fetchSubscriptions_def fetchLoop.simps
        requestPage_def exampleLib_def pagedNet_def exampleClient_def Let_def)

text \<open>
  C3 says that the caller of the creation operation receives a \<open>VerificationTimeoutError\<close>
  with the ID of the 202 response when no confirmation arrives. The remote side answers
  202 with the subscription \<open>abc123\<close> and nothing arrives on the channel: the attempt ends with
  that error, and \<open>AddSubscription\<close> returns the empty ID and no error.
\<close>

theorem AddSubscription_drops_verification_timeout:
  "addSubscription exampleLib (answeringNet 202 ''CREATED'') exampleClient [] []
     ''stream.online'' ''1'' exampleCondition =
   Returns (([], Some (VerificationTimeoutError exampleSubscription)),
            [HttpDo ''POST'' ''https://api.twitch.tv/helix/eventsub/subscriptions''
               [(''Content-Type'', ''application/json''),
                (''Client-ID'', ''client-id''),
                (''Authorization'', ''Bearer token0'')] ''REQUEST'']) \<and>
   ID exampleSubscription = ''abc123'' \<and>
   AddSubscription exampleLib (answeringNet 202 ''CREATED'') exampleClient [] []
     ''stream.online'' ''1'' exampleCondition =
   Returns (([], None), exampleClient,
            [HttpDo ''POST'' ''https://api.twitch.tv/helix/eventsub/subscriptions''
               [(''Content-Type'', ''application/json''),
                (''Client-ID'', ''client-id''),
                (''Authorization'', ''Bearer token0'')] ''REQUEST''])"
  by (simp add: AddSubscription_def addSubscription_def index_def exampleLib_def
        answeringNet_def exampleClient_def exampleSubscription_def)

text \<open>
  C4 says that \<open>RemoveSubscriptionByType\<close> issues no delete call when no subscription of the
  type matches, and removes only subscriptions of the given type. The remote side holds one
  subscription, of type \<open>stream.offline\<close>, and would list nothing for the filter
  \<open>type=stream.online\<close>. The list request carries no filter, the loop compares conditions
  only, and the call for \<open>stream.online\<close> deletes the \<open>stream.offline\<close> subscription.
\<close>

theorem RemoveSubscriptionByType_removes_other_type:
  "Type offlineSubscription = ''stream.offline'' \<and> ID offlineSubscription = ''off456'' \<and>
   RemoveSubscriptionByType exampleLib filteringNet exampleClient [] ''stream.online''
     exampleCondition =
   Returns (None, exampleClient,
            [GenericRequest ''GET'' ''/eventsub/subscriptions'' ''token0'',
             GenericRequest ''DELETE'' ''/eventsub/subscriptions?id=off456'' ''token0''])"
  by (simp add: RemoveSubscriptionByType_def GetSubscriptionsByType_def fetchSubscriptions_def
        fetchLoop.simps requestPage_def exampleLib_def filteringNet_def exampleClient_def
        Let_def conditionEq_def RemoveSubscription_def removeSubscription_def
        offlineSubscription_def exampleSubscription_def exampleCondition_def)

text \<open>
  C9 says that the creation operation returns an Internal error when the creation endpoint
  answers 202 with an empty data array, instead of reading an element. The remote side
  answers 202 with such a body: no element is read and the attempt \<open>addSubscription\<close> ends with
  the \<open>InternalError\<close>, but \<open>AddSubscription\<close> returns the empty ID and no error.
\<close>

theorem AddSubscription_drops_empty_data_error:
  "addSubscription exampleLib (answeringNet 202 ''EMPTY'') exampleClient [] []
     ''stream.online'' ''1'' exampleCondition =
   Returns (([], Some (InternalError
               ''Helix did not return the subscription they were supposed to'')),
            [HttpDo ''POST'' ''https://api.twitch.tv/helix/eventsub/subscriptions''
               [(''Content-Type'', ''application/json''),
                (''Client-ID'', ''client-id''),
                (''Authorization'', ''Bearer token0'')] ''REQUEST'']) \<and>
   AddSubscription exampleLib (answeringNet 202 ''EMPTY'') exampleClient [] []
     ''stream.online'' ''1'' exampleCondition =
   Returns (([], None), exampleClient,
            [HttpDo ''POST'' ''https://api.twitch.tv/helix/eventsub/subscriptions''
               [(''Content-Type'', ''application/json''),
                (''Client-ID'', ''client-id''),
                (''Authorization'', ''Bearer token0'')] ''REQUEST''])"
  by (simp add: AddSubscription_def addSubscription_def exampleLib_def answeringNet_def
        exampleClient_def)

end
